theory Spec2Isabelle
  imports Main
begin

section \<open>The summarizer Lambda (poc/lambda/summarizer/index.py)\<close>

text \<open>
  The handler is a linear sequence of calls to storage, the hosted model and the audit
  table. The embedding keeps the source's functions and their order. What the program
  gets from outside (environment variables, the answers of the AWS clients, the JSON
  and codec functions of the standard library, the clock and the UUID generator) is
  held in two records, \<open>config\<close> and \<open>services\<close>; what it does to the outside (objects
  written, audit rows written, model invocations made) is collected in a \<open>world\<close> that
  every function takes and returns. An exception is the \<open>Inl\<close> of a sum.

  A Python \<open>str\<close> is a list of characters, one per code point (the 8-bit \<open>char\<close> covers
  the code points below 256), so \<open>length\<close> is Python's \<open>len\<close>.
\<close>

subsection \<open>Python values and exceptions\<close>

datatype json =
    JNull
  | JBool bool
  | JNum int
  | JStr string
  | JArr "json list"
  | JObj "(string \<times> json) list"

type_synonym pydict = "(string \<times> json) list"

text \<open>\<open>d[k] = v\<close> on a dict: an existing key keeps its place, a new key goes last.\<close>

fun dict_set :: "string \<Rightarrow> json \<Rightarrow> pydict \<Rightarrow> pydict" where
  "dict_set k v [] = [(k, v)]"
| "dict_set k v (p # ps) = (if fst p = k then (k, v) # ps else p # dict_set k v ps)"

text \<open>\<open>d.get(k, default)\<close>.\<close>

definition dict_get :: "pydict \<Rightarrow> string \<Rightarrow> json \<Rightarrow> json" where
  "dict_get d k dflt = (case map_of d k of None \<Rightarrow> dflt | Some v \<Rightarrow> v)"

datatype exn =
    ClientError string
  | JSONDecodeError string
  | ValueError string
  | KeyError string
  | IndexError string
  | TypeError string
  | AttributeError string
  | UnicodeDecodeError string
  | OtherError string string

text \<open>\<open>type(e).__name__\<close> and \<open>str(e)\<close>.\<close>

fun exn_type_name :: "exn \<Rightarrow> string" where
  "exn_type_name (ClientError m) = ''ClientError''"
| "exn_type_name (JSONDecodeError m) = ''JSONDecodeError''"
| "exn_type_name (ValueError m) = ''ValueError''"
| "exn_type_name (KeyError m) = ''KeyError''"
| "exn_type_name (IndexError m) = ''IndexError''"
| "exn_type_name (TypeError m) = ''TypeError''"
| "exn_type_name (AttributeError m) = ''AttributeError''"
| "exn_type_name (UnicodeDecodeError m) = ''UnicodeDecodeError''"
| "exn_type_name (OtherError n m) = n"

fun exn_str :: "exn \<Rightarrow> string" where
  "exn_str (ClientError m) = m"
| "exn_str (JSONDecodeError m) = m"
| "exn_str (ValueError m) = m"
| "exn_str (KeyError m) = m"
| "exn_str (IndexError m) = m"
| "exn_str (TypeError m) = m"
| "exn_str (AttributeError m) = m"
| "exn_str (UnicodeDecodeError m) = m"
| "exn_str (OtherError n m) = m"

fun is_ClientError :: "exn \<Rightarrow> bool" where
  "is_ClientError (ClientError m) = True"
| "is_ClientError e = False"

fun is_JSONDecodeError :: "exn \<Rightarrow> bool" where
  "is_JSONDecodeError (JSONDecodeError m) = True"
| "is_JSONDecodeError e = False"

subsection \<open>Python string operations\<close>

text \<open>
  \<open>str.isspace\<close> on the code points below 256: tab to carriage return, the four
  separators 0x1C to 0x1F, the space, NEL (0x85) and the no-break space (0xA0).
\<close>

definition isspace :: "char \<Rightarrow> bool" where
  "isspace c =
     (let n = (of_char c :: nat)
      in (9 \<le> n \<and> n \<le> 13) \<or> (28 \<le> n \<and> n \<le> 32) \<or> n = 133 \<or> n = 160)"

definition py_strip :: "string \<Rightarrow> string" where
  "py_strip s = rev (dropWhile isspace (rev (dropWhile isspace s)))"

definition startswith :: "string \<Rightarrow> string \<Rightarrow> bool" where
  "startswith s p = (take (length p) s = p)"

definition endswith :: "string \<Rightarrow> string \<Rightarrow> bool" where
  "endswith s p = (length p \<le> length s \<and> drop (length s - length p) s = p)"

text \<open>\<open>s.split("/")[-1]\<close>: what follows the last slash, the whole string without one.\<close>

definition split_slash_last :: "string \<Rightarrow> string" where
  "split_slash_last s = rev (takeWhile (\<lambda>c. c \<noteq> CHR ''/'') (rev s))"

text \<open>\<open>s.rsplit(".", 1)[0]\<close>: what precedes the last dot, the whole string without one.\<close>

definition rsplit_dot_first :: "string \<Rightarrow> string" where
  "rsplit_dot_first s =
     (if CHR ''.'' \<in> set s then rev (tl (dropWhile (\<lambda>c. c \<noteq> CHR ''.'') (rev s))) else s)"

text \<open>Python truthiness of an optional string: \<open>None\<close> and the empty string are false.\<close>

fun truthy :: "string option \<Rightarrow> bool" where
  "truthy None = False"
| "truthy (Some s) = (s \<noteq> [])"

text \<open>\<open>a or b\<close>.\<close>

definition py_or :: "string option \<Rightarrow> string option \<Rightarrow> string option" where
  "py_or a b = (if truthy a then a else b)"

subsection \<open>Configuration, services and effects\<close>

text \<open>
  The module-level configuration: the environment variables as the module reads them
  (\<open>SUMMARY_BUCKET\<close> and \<open>FAILED_BUCKET\<close> after their fallback to \<open>BUCKET_NAME\<close>,
  \<open>DEFAULT_MODEL\<close> and \<open>FAST_MODEL\<close> after their defaults) and the two prompt constants,
  whose text no property below depends on.
\<close>

record config =
  SUMMARY_BUCKET :: "string option"
  FAILED_BUCKET :: "string option"
  TRACKING_TABLE :: "string option"
  MODEL_ID :: "string option"
  DEFAULT_MODEL :: string
  FAST_MODEL :: string
  UNDERWRITING_RUBRIC :: string
  OUTPUT_SCHEMA :: string

type_synonym bytes = "char list"

text \<open>
  The collaborators of one invocation. Each AWS call answers with a value or raises;
  \<open>json_loads\<close> is \<open>json.loads\<close> (\<open>None\<close> for \<open>JSONDecodeError\<close>); the decoders are
  \<open>bytes.decode\<close> with the codec and error mode of each call site; \<open>uuid4\<close> and
  \<open>utcnow\<close> are the UUID and the ISO timestamp the invocation draws.
\<close>

record services =
  s3_get_object :: "string \<Rightarrow> string \<Rightarrow> exn + bytes"
  s3_put_object :: "string option \<Rightarrow> string \<Rightarrow> json \<Rightarrow> exn option"
  bedrock_invoke_model :: "string \<Rightarrow> string \<Rightarrow> exn + string"
  dynamodb_put_item :: "string \<Rightarrow> pydict \<Rightarrow> exn option"
  json_loads :: "string \<Rightarrow> json option"
  decode_utf8 :: "bytes \<Rightarrow> exn + string"
  decode_utf8_ignore :: "bytes \<Rightarrow> exn + string"
  decode_latin1_ignore :: "bytes \<Rightarrow> exn + string"
  uuid4 :: string
  utcnow :: string

text \<open>
  The effects: the objects put (bucket and key to the body, before serialisation), the
  audit rows put (table name and item, in order), and the model invocations made
  (model id and prompt, in order).
\<close>

record world =
  objects :: "string option \<times> string \<Rightarrow> json option"
  audit_rows :: "(string \<times> pydict) list"
  model_calls :: "(string \<times> string) list"

subsection \<open>Model routing\<close>

definition TOKEN_THRESHOLD :: nat where
  "TOKEN_THRESHOLD = 8000"

definition estimate_tokens :: "string \<Rightarrow> nat" where
  "estimate_tokens text = length text div 4"

definition select_model :: "config \<Rightarrow> string \<Rightarrow> string" where
  "select_model cfg text =
     (if truthy (MODEL_ID cfg) then the (MODEL_ID cfg)
      else if estimate_tokens text < TOKEN_THRESHOLD then FAST_MODEL cfg
      else DEFAULT_MODEL cfg)"

subsection \<open>Reading the document\<close>

definition extract_document :: "services \<Rightarrow> string \<Rightarrow> string \<Rightarrow> exn + string" where
  "extract_document svc bucket key =
     (case s3_get_object svc bucket key of
        Inl e \<Rightarrow> Inl e
      | Inr content \<Rightarrow>
          if endswith key ''.txt'' then decode_utf8 svc content
          else if endswith key ''.pdf'' then
            (case decode_utf8_ignore svc content of
               Inr t \<Rightarrow> Inr t
             | Inl e \<Rightarrow> decode_latin1_ignore svc content)
          else decode_utf8_ignore svc content)"

subsection \<open>The prompt and the model call\<close>

definition max_input_chars :: nat where
  "max_input_chars = 150000"

definition nl :: string where
  "nl = [CHR 0x0A]"

definition TRUNCATION_MARKER :: string where
  "TRUNCATION_MARKER = nl @ nl @ ''[...DOCUMENT TRUNCATED...]'' @ nl @ nl"

definition truncate_text :: "string \<Rightarrow> string" where
  "truncate_text text =
     (if length text > max_input_chars
      then (let half = max_input_chars div 2
            in take half text @ TRUNCATION_MARKER @ drop (length text - half) text)
      else text)"

text \<open>The f-string of \<open>invoke_bedrock\<close>, cut at the place of the document text.\<close>

definition prompt_before :: "config \<Rightarrow> string" where
  "prompt_before cfg =
     nl @ ''Analyze the following medical document and generate an underwriting summary.''
     @ nl @ nl @ UNDERWRITING_RUBRIC cfg @ nl @ nl @ ''<medical_document>'' @ nl"

definition prompt_after :: "config \<Rightarrow> string \<Rightarrow> string \<Rightarrow> string" where
  "prompt_after cfg processing_id model_id =
     nl @ ''</medical_document>'' @ nl @ nl @ ''Required output format:'' @ nl
     @ OUTPUT_SCHEMA cfg @ nl @ nl @ ''IMPORTANT: '' @ nl
     @ ''- Use processing_id: '' @ [CHR 0x22] @ processing_id @ [CHR 0x22] @ nl
     @ ''- model_used: '' @ [CHR 0x22] @ model_id @ [CHR 0x22] @ nl
     @ ''- Return ONLY the JSON object, no additional text'' @ nl
     @ ''- Think step-by-step before determining the risk level'' @ nl
     @ ''- Cross-reference all findings against the rubric criteria'' @ nl"

definition user_prompt :: "config \<Rightarrow> string \<Rightarrow> string \<Rightarrow> string \<Rightarrow> string" where
  "user_prompt cfg text processing_id model_id =
     prompt_before cfg @ text @ prompt_after cfg processing_id model_id"

text \<open>\<open>obj[key]\<close> with a string key, and \<open>obj[0]\<close>, on a parsed JSON value.\<close>

fun getitem_str :: "json \<Rightarrow> string \<Rightarrow> exn + json" where
  "getitem_str (JObj d) k = (case map_of d k of None \<Rightarrow> Inl (KeyError k) | Some v \<Rightarrow> Inr v)"
| "getitem_str (JArr xs) k = Inl (TypeError ''list indices must be integers or slices, not str'')"
| "getitem_str (JStr s) k = Inl (TypeError ''string indices must be integers'')"
| "getitem_str j k = Inl (TypeError ''object is not subscriptable'')"

fun getitem_0 :: "json \<Rightarrow> exn + json" where
  "getitem_0 (JArr []) = Inl (IndexError ''list index out of range'')"
| "getitem_0 (JArr (x # xs)) = Inr x"
| "getitem_0 (JStr []) = Inl (IndexError ''string index out of range'')"
| "getitem_0 (JStr (c # cs)) = Inr (JStr [c])"
| "getitem_0 (JObj d) = Inl (KeyError ''0'')"
| "getitem_0 j = Inl (TypeError ''object is not subscriptable'')"

text \<open>
  \<open>response_body["content"][0]["text"]\<close>, which must be a \<open>str\<close> for the \<open>strip\<close>
  that follows.
\<close>

definition response_text :: "json \<Rightarrow> exn + string" where
  "response_text response_body =
     (case getitem_str response_body ''content'' of
        Inl e \<Rightarrow> Inl e
      | Inr content \<Rightarrow>
          (case getitem_0 content of
             Inl e \<Rightarrow> Inl e
           | Inr block \<Rightarrow>
               (case getitem_str block ''text'' of
                  Inl e \<Rightarrow> Inl e
                | Inr (JStr s) \<Rightarrow> Inr s
                | Inr j \<Rightarrow> Inl (AttributeError ''object has no attribute strip''))))"

definition fence :: string where
  "fence = [CHR 0x60, CHR 0x60, CHR 0x60]"

text \<open>
  The text handed to the JSON parser: stripped, then without a leading
  \<open>fence @ ''json''\<close>, a leading \<open>fence\<close> and a trailing \<open>fence\<close>, each tested in turn.
\<close>

definition strip_fences :: "string \<Rightarrow> string" where
  "strip_fences raw =
     (let s0 = py_strip raw;
          s1 = (if startswith s0 (fence @ ''json'') then drop 7 s0 else s0);
          s2 = (if startswith s1 fence then drop 3 s1 else s1)
      in if endswith s2 fence then take (length s2 - 3) s2 else s2)"

definition degraded_summary :: "string \<Rightarrow> string \<Rightarrow> string \<Rightarrow> pydict" where
  "degraded_summary processing_id model_id raw_response =
     [(''processing_id'', JStr processing_id),
      (''risk_level'', JStr ''UNKNOWN''),
      (''error'', JStr ''Failed to parse AI response''),
      (''raw_response'', JStr raw_response),
      (''model_used'', JStr model_id)]"

text \<open>
  What follows a successful \<open>invoke_model\<close> inside the \<open>try\<close>: the envelope is parsed,
  the text block taken out, the fences stripped, the text parsed. A \<open>JSONDecodeError\<close>
  of either parse is caught; \<open>summary_text\<close> is bound only after the first.
\<close>

definition parse_response :: "services \<Rightarrow> string \<Rightarrow> string \<Rightarrow> string \<Rightarrow> exn + json" where
  "parse_response svc body processing_id model_id =
     (case json_loads svc body of
        None \<Rightarrow> Inr (JObj (degraded_summary processing_id model_id ''No response''))
      | Some response_body \<Rightarrow>
          (case response_text response_body of
             Inl e \<Rightarrow> Inl e
           | Inr raw \<Rightarrow>
               (let summary_text = strip_fences raw
                in case json_loads svc (py_strip summary_text) of
                     None \<Rightarrow>
                       Inr (JObj (degraded_summary processing_id model_id (take 1000 summary_text)))
                   | Some j \<Rightarrow> Inr j)))"

definition invoke_bedrock ::
  "config \<Rightarrow> services \<Rightarrow> string \<Rightarrow> string \<Rightarrow> string \<Rightarrow> world \<Rightarrow> (exn + json) \<times> world" where
  "invoke_bedrock cfg svc text model_id processing_id w =
     (let prompt = user_prompt cfg (truncate_text text) processing_id model_id;
          w' = w\<lparr>model_calls := model_calls w @ [(model_id, prompt)]\<rparr>
      in (case bedrock_invoke_model svc model_id prompt of
            Inl e \<Rightarrow>
              if is_JSONDecodeError e
              then Inr (JObj (degraded_summary processing_id model_id ''No response''))
              else Inl e
          | Inr body \<Rightarrow> parse_response svc body processing_id model_id,
          w'))"

subsection \<open>Writing the summary, the failure record and the audit row\<close>

text \<open>
  \<open>original_key.split("/")[-1].rsplit(".", 1)[0]\<close>, the two lines that open both
  \<open>save_summary\<close> and \<open>save_failed_document\<close>, and the output key each derives
  from it.
\<close>

definition base_name :: "string \<Rightarrow> string" where
  "base_name original_key = rsplit_dot_first (split_slash_last original_key)"

definition summary_output_key :: "string \<Rightarrow> string" where
  "summary_output_key original_key = ''summaries/'' @ base_name original_key @ ''_summary.json''"

definition failed_output_key :: "string \<Rightarrow> string" where
  "failed_output_key original_key = ''failed/'' @ base_name original_key @ ''_error.json''"

text \<open>
  \<open>save_summary\<close> assigns two keys of \<open>summary\<close>, which raises \<open>TypeError\<close> unless the
  parsed value is a dict, then puts the object. It returns the output key; the mutated
  dict is returned too, since the handler reads \<open>summary\<close> afterwards.
\<close>

definition save_summary ::
  "config \<Rightarrow> services \<Rightarrow> json \<Rightarrow> string \<Rightarrow> world \<Rightarrow> (exn + string \<times> pydict) \<times> world" where
  "save_summary cfg svc summary original_key w =
     (let output_key = summary_output_key original_key
      in case summary of
           JObj d \<Rightarrow>
             (let d' = dict_set ''generated_at'' (JStr (utcnow svc))
                         (dict_set ''original_document'' (JStr original_key) d)
              in case s3_put_object svc (SUMMARY_BUCKET cfg) output_key (JObj d') of
                   Some e \<Rightarrow> (Inl e, w)
                 | None \<Rightarrow>
                     (Inr (output_key, d'),
                      w\<lparr>objects := (objects w)((SUMMARY_BUCKET cfg, output_key) \<mapsto> JObj d')\<rparr>))
         | _ \<Rightarrow> (Inl (TypeError ''object does not support item assignment''), w))"

definition save_failed_document ::
  "config \<Rightarrow> services \<Rightarrow> pydict \<Rightarrow> string \<Rightarrow> world \<Rightarrow> (exn + string) \<times> world" where
  "save_failed_document cfg svc error_info original_key w =
     (let output_key = failed_output_key original_key;
          d' = dict_set ''failed_at'' (JStr (utcnow svc))
                 (dict_set ''original_document'' (JStr original_key) error_info)
      in case s3_put_object svc (FAILED_BUCKET cfg) output_key (JObj d') of
           Some e \<Rightarrow> (Inl e, w)
         | None \<Rightarrow>
             (Inr output_key,
              w\<lparr>objects := (objects w)((FAILED_BUCKET cfg, output_key) \<mapsto> JObj d')\<rparr>))"

text \<open>
  \<open>update_tracking_table\<close> returns at once without a configured table and catches
  \<open>ClientError\<close> only; the result is the exception that leaves it, if any.
\<close>

definition update_tracking_table ::
  "config \<Rightarrow> services \<Rightarrow> pydict \<Rightarrow> world \<Rightarrow> exn option \<times> world" where
  "update_tracking_table cfg svc record w =
     (if \<not> truthy (TRACKING_TABLE cfg) then (None, w)
      else (case dynamodb_put_item svc (the (TRACKING_TABLE cfg)) record of
              None \<Rightarrow>
                (None, w\<lparr>audit_rows := audit_rows w @ [(the (TRACKING_TABLE cfg), record)]\<rparr>)
            | Some e \<Rightarrow> if is_ClientError e then (None, w) else (Some e, w)))"

subsection \<open>The handler\<close>

text \<open>
  The event: both casings of the two fields, each absent or a string.
\<close>

record event =
  ev_Bucket :: "string option"
  ev_bucket :: "string option"
  ev_Key :: "string option"
  ev_key :: "string option"

text \<open>\<open>str\<close> of an optional string inside an f-string.\<close>

fun format_opt :: "string option \<Rightarrow> string" where
  "format_opt None = ''None''"
| "format_opt (Some s) = s"

text \<open>The four dict literals of the handler: the two audit rows, the result, the error record.\<close>

definition completed_record ::
  "config \<Rightarrow> string \<Rightarrow> string \<Rightarrow> string \<Rightarrow> pydict \<Rightarrow> string \<Rightarrow> string \<Rightarrow> pydict" where
  "completed_record cfg key timestamp processing_id summary model_id output_key =
     [(''document_id'', JStr key),
      (''processing_timestamp'', JStr timestamp),
      (''processing_id'', JStr processing_id),
      (''status'', JStr ''COMPLETED''),
      (''risk_level'', dict_get summary ''risk_level'' (JStr ''UNKNOWN'')),
      (''model_used'', JStr model_id),
      (''summary_location'',
         JStr (''s3://'' @ format_opt (SUMMARY_BUCKET cfg) @ ''/'' @ output_key)),
      (''confidence_score'', dict_get summary ''confidence_score'' (JStr ''UNKNOWN''))]"

definition succeeded_result ::
  "string \<Rightarrow> string \<Rightarrow> string \<Rightarrow> pydict \<Rightarrow> string \<Rightarrow> json" where
  "succeeded_result processing_id key output_key summary model_id =
     JObj [(''status'', JStr ''SUCCEEDED''),
           (''processing_id'', JStr processing_id),
           (''input_key'', JStr key),
           (''output_key'', JStr output_key),
           (''risk_level'', dict_get summary ''risk_level'' (JStr ''UNKNOWN'')),
           (''model_used'', JStr model_id)]"

definition error_info_record :: "string \<Rightarrow> exn \<Rightarrow> string \<Rightarrow> string \<Rightarrow> pydict" where
  "error_info_record processing_id e bucket key =
     [(''processing_id'', JStr processing_id),
      (''error_type'', JStr (exn_type_name e)),
      (''error_message'', JStr (exn_str e)),
      (''bucket'', JStr bucket),
      (''key'', JStr key)]"

definition failed_record :: "string \<Rightarrow> string \<Rightarrow> string \<Rightarrow> exn \<Rightarrow> pydict" where
  "failed_record key timestamp processing_id e =
     [(''document_id'', JStr key),
      (''processing_timestamp'', JStr timestamp),
      (''processing_id'', JStr processing_id),
      (''status'', JStr ''FAILED''),
      (''error_message'', JStr (take 500 (exn_str e))),
      (''risk_level'', JStr ''ERROR'')]"

text \<open>The body of the handler's \<open>try\<close>, steps 1 to 5.\<close>

definition process_document ::
  "config \<Rightarrow> services \<Rightarrow> string \<Rightarrow> string \<Rightarrow> string \<Rightarrow> string \<Rightarrow> world \<Rightarrow> (exn + json) \<times> world" where
  "process_document cfg svc bucket key processing_id timestamp w =
     (case extract_document svc bucket key of
        Inl e \<Rightarrow> (Inl e, w)
      | Inr document_text \<Rightarrow>
          if py_strip document_text = []
          then (Inl (ValueError ''Document is empty or could not be extracted''), w)
          else
            (let model_id = select_model cfg document_text
             in case invoke_bedrock cfg svc document_text model_id processing_id w of
                  (Inl e, w1) \<Rightarrow> (Inl e, w1)
                | (Inr summary, w1) \<Rightarrow>
                    (case save_summary cfg svc summary key w1 of
                       (Inl e, w2) \<Rightarrow> (Inl e, w2)
                     | (Inr (output_key, summary'), w2) \<Rightarrow>
                         (let tracking_record =
                                completed_record cfg key timestamp processing_id summary'
                                  model_id output_key
                          in case update_tracking_table cfg svc tracking_record w2 of
                               (Some e, w3) \<Rightarrow> (Inl e, w3)
                             | (None, w3) \<Rightarrow>
                                 (Inr (succeeded_result processing_id key output_key summary' model_id),
                                  w3)))))"

text \<open>
  The \<open>except Exception\<close> of the handler: the failure record is attempted (an exception
  of that write is logged and dropped), the FAILED audit row is attempted, and the
  caught exception is raised again.
\<close>

definition handle_failure ::
  "config \<Rightarrow> services \<Rightarrow> string \<Rightarrow> string \<Rightarrow> string \<Rightarrow> string \<Rightarrow> exn \<Rightarrow> world \<Rightarrow> (exn + json) \<times> world" where
  "handle_failure cfg svc bucket key processing_id timestamp e w =
     (let error_info = error_info_record processing_id e bucket key;
          w1 = snd (save_failed_document cfg svc error_info key w);
          tracking_record = failed_record key timestamp processing_id e
      in case update_tracking_table cfg svc tracking_record w1 of
           (Some e2, w2) \<Rightarrow> (Inl e2, w2)
         | (None, w2) \<Rightarrow> (Inl e, w2))"

definition handler :: "config \<Rightarrow> services \<Rightarrow> event \<Rightarrow> world \<Rightarrow> (exn + json) \<times> world" where
  "handler cfg svc event w =
     (let processing_id = uuid4 svc;
          timestamp = utcnow svc;
          bucket = py_or (ev_Bucket event) (ev_bucket event);
          key = py_or (ev_Key event) (ev_key event)
      in if \<not> truthy bucket \<or> \<not> truthy key
         then (Inr (JObj
                 [(''status'', JStr ''FAILED''),
                  (''error'', JStr ''Missing required 'Bucket'/'bucket' or 'Key'/'key' in event''),
                  (''processing_id'', JStr processing_id)]),
               w)
         else if \<not> (endswith (the key) ''.txt'' \<or> endswith (the key) ''.pdf'')
         then (Inr (JObj
                 [(''status'', JStr ''SKIPPED''),
                  (''reason'', JStr ''Not a supported document type''),
                  (''key'', JStr (the key))]),
               w)
         else (case process_document cfg svc (the bucket) (the key) processing_id timestamp w of
                 (Inr result, w1) \<Rightarrow> (Inr result, w1)
               | (Inl e, w1) \<Rightarrow>
                   handle_failure cfg svc (the bucket) (the key) processing_id timestamp e w1))"

subsection \<open>Two conditions on an invocation\<close>

text \<open>
  \<open>names_document\<close>: the event names a bucket and a key that pass the two guards at
  the top of the handler. \<open>audit_absorbed\<close>: \<open>put_item\<close>, when it fails, fails with
  the \<open>ClientError\<close> that \<open>update_tracking_table\<close> catches.
\<close>

definition names_document :: "event \<Rightarrow> string \<Rightarrow> string \<Rightarrow> bool" where
  "names_document ev bucket key =
     (py_or (ev_Bucket ev) (ev_bucket ev) = Some bucket \<and> bucket \<noteq> []
      \<and> py_or (ev_Key ev) (ev_key ev) = Some key
      \<and> (endswith key ''.txt'' \<or> endswith key ''.pdf''))"

definition audit_absorbed :: "services \<Rightarrow> bool" where
  "audit_absorbed svc =
     (\<forall>t item. case dynamodb_put_item svc t item of None \<Rightarrow> True | Some e \<Rightarrow> is_ClientError e)"

text \<open>
  Names for three values the statements below mention: the summary and the failure
  record as they are put (after the two key assignments of \<open>save_summary\<close> and of
  \<open>save_failed_document\<close>), and the audit rows one call of \<open>update_tracking_table\<close>
  adds (the row when a table is configured and \<open>put_item\<close> accepts it, none otherwise).
\<close>

definition stamp_summary :: "services \<Rightarrow> string \<Rightarrow> pydict \<Rightarrow> pydict" where
  "stamp_summary svc key d =
     dict_set ''generated_at'' (JStr (utcnow svc)) (dict_set ''original_document'' (JStr key) d)"

definition stamp_failure :: "services \<Rightarrow> string \<Rightarrow> pydict \<Rightarrow> pydict" where
  "stamp_failure svc key d =
     dict_set ''failed_at'' (JStr (utcnow svc)) (dict_set ''original_document'' (JStr key) d)"

definition audit_written :: "config \<Rightarrow> services \<Rightarrow> pydict \<Rightarrow> (string \<times> pydict) list" where
  "audit_written cfg svc row =
     (if truthy (TRACKING_TABLE cfg) \<and> dynamodb_put_item svc (the (TRACKING_TABLE cfg)) row = None
      then [(the (TRACKING_TABLE cfg), row)] else [])"

subsection \<open>Example configurations and stub services\<close>

text \<open>
  The full stack sets the three stores and no \<open>MODEL_ID\<close>; the POC stack sets
  \<open>MODEL_ID\<close>; a deployment may leave \<open>TRACKING_TABLE\<close> unset.
\<close>

definition cfg_full :: config where
  "cfg_full =
     \<lparr>SUMMARY_BUCKET = Some ''summary-bucket'', FAILED_BUCKET = Some ''failed-bucket'',
      TRACKING_TABLE = Some ''tracking'', MODEL_ID = None,
      DEFAULT_MODEL = ''sonnet'', FAST_MODEL = ''haiku'',
      UNDERWRITING_RUBRIC = ''rubric'', OUTPUT_SCHEMA = ''schema''\<rparr>"

definition cfg_poc :: config where
  "cfg_poc = cfg_full\<lparr>MODEL_ID := Some ''haiku-poc''\<rparr>"

definition cfg_untracked :: config where
  "cfg_untracked = cfg_full\<lparr>TRACKING_TABLE := None\<rparr>"

text \<open>
  Stub services: the document is \<open>document\<close>, every put succeeds, the model answers
  with the text \<open>answer\<close> inside the Messages API envelope, and \<open>json.loads\<close> knows
  the envelope and the fence-stripped answer, which parses to \<open>parsed\<close>.
\<close>

definition quoted :: "string \<Rightarrow> string" where
  "quoted s = [CHR 0x22] @ s @ [CHR 0x22]"

definition json_escape :: "string \<Rightarrow> string" where
  "json_escape s =
     concat (map (\<lambda>c. if c = CHR 0x22 \<or> c = CHR 0x5C then [CHR 0x5C, c] else [c]) s)"

definition envelope_body :: "string \<Rightarrow> string" where
  "envelope_body answer =
     ''{'' @ quoted ''content'' @ '': [{'' @ quoted ''type'' @ '': '' @ quoted ''text''
     @ '', '' @ quoted ''text'' @ '': '' @ quoted (json_escape answer) @ ''}]}''"

definition envelope :: "string \<Rightarrow> json" where
  "envelope answer =
     JObj [(''content'', JArr [JObj [(''type'', JStr ''text''), (''text'', JStr answer)]])]"

definition svc_stub :: "string \<Rightarrow> string \<Rightarrow> json option \<Rightarrow> services" where
  "svc_stub document answer parsed =
     \<lparr>s3_get_object = (\<lambda>b k. Inr document),
      s3_put_object = (\<lambda>b k v. None),
      bedrock_invoke_model = (\<lambda>m p. Inr (envelope_body answer)),
      dynamodb_put_item = (\<lambda>t i. None),
      json_loads = (\<lambda>s. if s = envelope_body answer then Some (envelope answer)
                         else if s = py_strip (strip_fences answer) then parsed else None),
      decode_utf8 = Inr, decode_utf8_ignore = Inr, decode_latin1_ignore = Inr,
      uuid4 = ''id-1'', utcnow = ''t0''\<rparr>"

definition world0 :: world where
  "world0 = \<lparr>objects = (\<lambda>k. None), audit_rows = [], model_calls = []\<rparr>"

definition ev_doc1 :: event where
  "ev_doc1 = \<lparr>ev_Bucket = None, ev_bucket = Some ''b'', ev_Key = None,
              ev_key = Some ''uploads/doc1.txt''\<rparr>"

text \<open>
  A document, and two model answers: text that is not JSON inside a code fence, and a
  JSON object whose \<open>risk_level\<close> is outside the rubric and whose lab value is
  \<open>null\<close>, with what \<open>json.loads\<close> makes of it.
\<close>

definition doc1_text :: string where
  "doc1_text = ''Patient reports well-controlled Type 2 Diabetes, HbA1c 7.2%, on Metformin monotherapy.''"

definition answer_fenced :: string where
  "answer_fenced = fence @ ''json'' @ '' I cannot comply '' @ fence"

definition answer_critical :: string where
  "answer_critical =
     ''{'' @ quoted ''risk_level'' @ '': '' @ quoted ''CRITICAL'' @ '', ''
     @ quoted ''lab_values'' @ '': {'' @ quoted ''HbA1c'' @ '': null}}''"

definition parsed_critical :: pydict where
  "parsed_critical =
     [(''risk_level'', JStr ''CRITICAL''), (''lab_values'', JObj [(''HbA1c'', JNull)])]"

text \<open>An audit table that refuses every item with a client error.\<close>

definition put_item_throttled :: "string \<Rightarrow> pydict \<Rightarrow> exn option" where
  "put_item_throttled t item = Some (ClientError ''ProvisionedThroughputExceededException'')"

text \<open>A store without the document, and a store that refuses every put.\<close>

definition get_object_missing :: "string \<Rightarrow> string \<Rightarrow> exn + bytes" where
  "get_object_missing b k = Inl (ClientError ''NoSuchKey'')"

definition put_object_denied :: "string option \<Rightarrow> string \<Rightarrow> json \<Rightarrow> exn option" where
  "put_object_denied b k v = Some (ClientError ''AccessDenied'')"


section \<open>Model routing\<close>

text \<open>
  C8. With a non-empty \<open>MODEL_ID\<close> configured, \<open>select_model\<close> returns it for every
  document. Otherwise the estimate is \<open>len(text) // 4\<close>, and the fast model is chosen
  when the estimate is strictly below 8000, the default (capable) model when it is
  8000 or more; the estimate is below 8000 exactly for texts shorter than 32,000
  characters.
\<close>

theorem select_model_routing:
  "(truthy (MODEL_ID cfg) \<longrightarrow> select_model cfg text = the (MODEL_ID cfg))
   \<and> estimate_tokens text = length text div 4
   \<and> (\<not> truthy (MODEL_ID cfg) \<and> estimate_tokens text < 8000
        \<longrightarrow> select_model cfg text = FAST_MODEL cfg)
   \<and> (\<not> truthy (MODEL_ID cfg) \<and> 8000 \<le> estimate_tokens text
        \<longrightarrow> select_model cfg text = DEFAULT_MODEL cfg)
   \<and> (estimate_tokens text < 8000 \<longleftrightarrow> length text < 32000)"
  by (simp add: select_model_def estimate_tokens_def TOKEN_THRESHOLD_def) arith

theorem select_model_routing_witness:
  "select_model cfg_poc (replicate 40000 (CHR ''x'')) = ''haiku-poc''
   \<and> select_model cfg_full (replicate 31999 (CHR ''x'')) = ''haiku''
   \<and> select_model cfg_full (replicate 32000 (CHR ''x'')) = ''sonnet''"
  using select_model_routing [of cfg_poc "replicate 40000 (CHR ''x'')"]
    select_model_routing [of cfg_full "replicate 31999 (CHR ''x'')"]
    select_model_routing [of cfg_full "replicate 32000 (CHR ''x'')"]
  by (simp add: cfg_poc_def cfg_full_def estimate_tokens_def)

section \<open>Truncation of long documents\<close>








section \<open>The handler: shared facts\<close>

lemma names_document_doc1: "names_document ev_doc1 ''b'' ''uploads/doc1.txt''"
  by (simp add: names_document_def ev_doc1_def py_or_def endswith_def)

lemma audit_absorbed_stub: "audit_absorbed (svc_stub d a p)"
  by (simp add: audit_absorbed_def svc_stub_def)

lemma handler_names_document:
  assumes "names_document ev bucket key"
  shows "handler cfg svc ev w =
     (case process_document cfg svc bucket key (uuid4 svc) (utcnow svc) w of
        (Inr result, w1) \<Rightarrow> (Inr result, w1)
      | (Inl e, w1) \<Rightarrow> handle_failure cfg svc bucket key (uuid4 svc) (utcnow svc) e w1)"
proof -
  have "key \<noteq> []" using assms by (auto simp: names_document_def endswith_def)
  then show ?thesis
    using assms
    by (simp add: names_document_def handler_def Let_def split: prod.splits sum.splits)
qed



lemma update_tracking_table_absorbed_eq:
  assumes "audit_absorbed svc"
  shows "update_tracking_table cfg svc row w =
     (None, w\<lparr>audit_rows := audit_rows w @
        (if truthy (TRACKING_TABLE cfg)
            \<and> dynamodb_put_item svc (the (TRACKING_TABLE cfg)) row = None
         then [(the (TRACKING_TABLE cfg), row)] else [])\<rparr>)"
proof (cases "dynamodb_put_item svc (the (TRACKING_TABLE cfg)) row")
  case None
  then show ?thesis by (simp add: update_tracking_table_def)
next
  case (Some e)
  then have "is_ClientError e"
    using assms by (auto simp: audit_absorbed_def split: option.splits dest!: spec)
  then show ?thesis using Some by (simp add: update_tracking_table_def)
qed

lemma handle_failure_absorbed:
  "audit_absorbed svc \<Longrightarrow> fst (handle_failure cfg svc bucket key pid ts e w) = Inl e"
  by (simp add: handle_failure_def Let_def update_tracking_table_absorbed_eq)


lemma fst_invoke_bedrock:
  "fst (invoke_bedrock cfg svc text' model_id pid w) =
     (case bedrock_invoke_model svc model_id (user_prompt cfg (truncate_text text') pid model_id) of
        Inl e \<Rightarrow> if is_JSONDecodeError e
                 then Inr (JObj (degraded_summary pid model_id ''No response''))
                 else Inl e
      | Inr body \<Rightarrow> parse_response svc body pid model_id)"
  by (simp add: invoke_bedrock_def Let_def)

lemma snd_invoke_bedrock:
  "snd (invoke_bedrock cfg svc text' model_id pid w) =
     w\<lparr>model_calls := model_calls w
        @ [(model_id, user_prompt cfg (truncate_text text') pid model_id)]\<rparr>"
  by (simp add: invoke_bedrock_def Let_def)

lemma invoke_bedrock_eq:
  "fst (invoke_bedrock cfg svc text' model_id pid w) = r \<Longrightarrow>
   invoke_bedrock cfg svc text' model_id pid w =
     (r, w\<lparr>model_calls := model_calls w
        @ [(model_id, user_prompt cfg (truncate_text text') pid model_id)]\<rparr>)"
  using snd_invoke_bedrock [of cfg svc text' model_id pid w] by (metis prod.collapse)

lemma save_summary_dict:
  "save_summary cfg svc (JObj d) key w =
     (case s3_put_object svc (SUMMARY_BUCKET cfg) (summary_output_key key)
             (JObj (stamp_summary svc key d)) of
        Some e \<Rightarrow> (Inl e, w)
      | None \<Rightarrow>
          (Inr (summary_output_key key, stamp_summary svc key d),
           w\<lparr>objects := (objects w)
              ((SUMMARY_BUCKET cfg, summary_output_key key) \<mapsto>
                 JObj (stamp_summary svc key d))\<rparr>))"
  by (simp add: save_summary_def Let_def stamp_summary_def split: option.splits)

lemma save_summary_Inr:
  assumes "save_summary cfg svc summary key w = (Inr (output_key, d'), w')"
  shows "output_key = summary_output_key key
         \<and> objects w' (SUMMARY_BUCKET cfg, summary_output_key key) = Some (JObj d')
         \<and> audit_rows w' = audit_rows w \<and> model_calls w' = model_calls w
         \<and> (\<exists>d. summary = JObj d \<and> d' = stamp_summary svc key d)"
  using assms
  by (cases summary)
    (auto simp: save_summary_def Let_def stamp_summary_def split: option.splits)

lemma save_summary_Inl:
  assumes "save_summary cfg svc summary key w = (Inl e, w')"
  shows "w' = w"
  using assms
  by (cases summary) (auto simp: save_summary_dict save_summary_def Let_def split: option.splits)

lemma save_failed_document_eq:
  "save_failed_document cfg svc info key w =
     (case s3_put_object svc (FAILED_BUCKET cfg) (failed_output_key key)
             (JObj (stamp_failure svc key info)) of
        Some e \<Rightarrow> (Inl e, w)
      | None \<Rightarrow>
          (Inr (failed_output_key key),
           w\<lparr>objects := (objects w)
              ((FAILED_BUCKET cfg, failed_output_key key) \<mapsto>
                 JObj (stamp_failure svc key info))\<rparr>))"
  by (simp add: save_failed_document_def Let_def stamp_failure_def split: option.splits)

lemma map_of_dict_set: "map_of (dict_set k v d) = (map_of d)(k \<mapsto> v)"
  by (induction d) (auto simp: fun_eq_iff)

lemma dict_get_dict_set_other:
  "k' \<noteq> k \<Longrightarrow> dict_get (dict_set k v d) k' dflt = dict_get d k' dflt"
  by (simp add: dict_get_def map_of_dict_set)

lemma dict_get_stamp_summary:
  "k \<noteq> ''generated_at'' \<Longrightarrow> k \<noteq> ''original_document'' \<Longrightarrow>
   dict_get (stamp_summary svc key d) k dflt = dict_get d k dflt"
  by (simp add: stamp_summary_def dict_get_dict_set_other)

lemma map_of_stamp_summary:
  "k \<noteq> ''generated_at'' \<Longrightarrow> k \<noteq> ''original_document'' \<Longrightarrow>
   map_of (stamp_summary svc key d) k = map_of d k"
  by (simp add: stamp_summary_def map_of_dict_set)

lemma snd_update_tracking_table:
  "snd (update_tracking_table cfg svc row w) =
     w\<lparr>audit_rows := audit_rows w @ audit_written cfg svc row\<rparr>"
  by (simp add: update_tracking_table_def audit_written_def split: option.splits)

lemma update_tracking_table_Some:
  "update_tracking_table cfg svc row w = (Some e, w') \<Longrightarrow> w' = w \<and> \<not> is_ClientError e"
  by (auto simp: update_tracking_table_def split: option.splits if_splits)

lemma update_tracking_table_None:
  "update_tracking_table cfg svc row w = (None, w') \<Longrightarrow>
     w' = w\<lparr>audit_rows := audit_rows w @ audit_written cfg svc row\<rparr>"
  using snd_update_tracking_table [of cfg svc row w] by simp


lemma process_document_success:
  assumes E: "extract_document svc bucket key = Inr document_text"
    and N: "py_strip document_text \<noteq> []"
    and B: "fst (invoke_bedrock cfg svc document_text (select_model cfg document_text) pid w)
              = Inr (JObj d)"
    and P: "s3_put_object svc (SUMMARY_BUCKET cfg) (summary_output_key key)
              (JObj (stamp_summary svc key d)) = None"
    and A: "audit_absorbed svc"
  shows "process_document cfg svc bucket key pid ts w =
             (Inr (succeeded_result pid key (summary_output_key key) (stamp_summary svc key d)
                     (select_model cfg document_text)),
              w\<lparr>model_calls := model_calls w @
                   [(select_model cfg document_text,
                     user_prompt cfg (truncate_text document_text) pid
                       (select_model cfg document_text))],
                objects := (objects w)
                   ((SUMMARY_BUCKET cfg, summary_output_key key) \<mapsto>
                      JObj (stamp_summary svc key d)),
                audit_rows := audit_rows w @
                   audit_written cfg svc
                     (completed_record cfg key ts pid (stamp_summary svc key d)
                        (select_model cfg document_text) (summary_output_key key))\<rparr>)"
  by (simp add: process_document_def E N invoke_bedrock_eq [OF B] save_summary_dict P
        update_tracking_table_absorbed_eq [OF A] Let_def audit_written_def)

text \<open>The \<open>try\<close> body and the \<open>except\<close> block, whatever the services do.\<close>

lemma process_document_Inr:
  assumes "process_document cfg svc bucket key pid ts w = (Inr r, w')"
  shows "\<exists>d m row. r = succeeded_result pid key (summary_output_key key) d m
           \<and> objects w' (SUMMARY_BUCKET cfg, summary_output_key key) = Some (JObj d)
           \<and> row = completed_record cfg key ts pid d m (summary_output_key key)
           \<and> audit_rows w' = audit_rows w @ audit_written cfg svc row
           \<and> (\<exists>d0. d = stamp_summary svc key d0)"
proof -
  obtain document_text where E: "extract_document svc bucket key = Inr document_text"
    and N: "py_strip document_text \<noteq> []"
    using assms by (auto simp: process_document_def split: sum.splits if_splits)
  let ?m = "select_model cfg document_text"
  obtain x w1 where IB: "invoke_bedrock cfg svc document_text ?m pid w = (x, w1)"
    by (cases "invoke_bedrock cfg svc document_text ?m pid w")
  have w1: "w1 = w\<lparr>model_calls := model_calls w
        @ [(?m, user_prompt cfg (truncate_text document_text) pid ?m)]\<rparr>"
    using IB snd_invoke_bedrock [of cfg svc document_text ?m pid w] by simp
  obtain summary where x: "x = Inr summary"
    using assms E N IB by (cases x) (auto simp: process_document_def Let_def)
  obtain y w2 where SS: "save_summary cfg svc summary key w1 = (y, w2)"
    by (cases "save_summary cfg svc summary key w1")
  obtain ok d' where y: "y = Inr (ok, d')"
    using assms E N IB x SS by (cases y) (auto simp: process_document_def Let_def)
  note ss = save_summary_Inr [OF SS [unfolded y]]
  obtain z w3 where UT: "update_tracking_table cfg svc
      (completed_record cfg key ts pid d' ?m ok) w2 = (z, w3)"
    by (cases "update_tracking_table cfg svc (completed_record cfg key ts pid d' ?m ok) w2")
  have z: "z = None" and r: "r = succeeded_result pid key ok d' ?m" and w': "w' = w3"
    using assms E N IB x SS y UT by (cases z; auto simp: process_document_def Let_def)+
  have w3: "w3 = w2\<lparr>audit_rows := audit_rows w2 @
      audit_written cfg svc (completed_record cfg key ts pid d' ?m ok)\<rparr>"
    using update_tracking_table_None UT z by blast
  show ?thesis
    using ss r w' w3 w1 by auto
qed

lemma process_document_Inl:
  assumes "process_document cfg svc bucket key pid ts w = (Inl e, w')"
  shows "audit_rows w' = audit_rows w"
proof (cases "extract_document svc bucket key")
  case (Inl a)
  then show ?thesis using assms by (simp add: process_document_def)
next
  case (Inr document_text)
  show ?thesis
  proof (cases "py_strip document_text = []")
    case True
    then show ?thesis using assms Inr by (auto simp: process_document_def)
  next
    case False
    let ?m = "select_model cfg document_text"
    obtain x w1 where IB: "invoke_bedrock cfg svc document_text ?m pid w = (x, w1)"
      by (cases "invoke_bedrock cfg svc document_text ?m pid w")
    have w1: "audit_rows w1 = audit_rows w"
      using IB snd_invoke_bedrock [of cfg svc document_text ?m pid w] by auto
    show ?thesis
    proof (cases x)
      case (Inl a)
      then show ?thesis using assms Inr False IB w1 by (auto simp: process_document_def Let_def)
    next
      case x: (Inr summary)
      obtain y w2 where SS: "save_summary cfg svc summary key w1 = (y, w2)"
        by (cases "save_summary cfg svc summary key w1")
      show ?thesis
      proof (cases y)
        case (Inl a)
        then have "w2 = w1" using SS save_summary_Inl by blast
        then show ?thesis
          using assms Inr False IB x SS Inl w1 by (auto simp: process_document_def Let_def)
      next
        case y: (Inr p)
        obtain ok d' where p: "p = (ok, d')" by (cases p)
        note ss = save_summary_Inr [OF SS [unfolded y p]]
        obtain z w3 where UT: "update_tracking_table cfg svc
            (completed_record cfg key ts pid d' ?m ok) w2 = (z, w3)"
          by (cases "update_tracking_table cfg svc (completed_record cfg key ts pid d' ?m ok) w2")
        show ?thesis
        proof (cases z)
          case None
          then show ?thesis
            using assms Inr False IB x SS y p UT by (auto simp: process_document_def Let_def)
        next
          case (Some e2)
          then have "w3 = w2" using UT update_tracking_table_Some by blast
          then show ?thesis
            using assms Inr False IB x SS y p UT Some ss w1
            by (auto simp: process_document_def Let_def)
        qed
      qed
    qed
  qed
qed

lemma snd_handle_failure:
  "objects (snd (handle_failure cfg svc bucket key pid ts e w)) =
     (if s3_put_object svc (FAILED_BUCKET cfg) (failed_output_key key)
           (JObj (stamp_failure svc key (error_info_record pid e bucket key))) = None
      then (objects w)((FAILED_BUCKET cfg, failed_output_key key) \<mapsto>
             JObj (stamp_failure svc key (error_info_record pid e bucket key)))
      else objects w)
   \<and> audit_rows (snd (handle_failure cfg svc bucket key pid ts e w)) =
       audit_rows w @ audit_written cfg svc (failed_record key ts pid e)"
proof -
  let ?w1 = "snd (save_failed_document cfg svc (error_info_record pid e bucket key) key w)"
  obtain z w2 where UT: "update_tracking_table cfg svc (failed_record key ts pid e) ?w1 = (z, w2)"
    by (cases "update_tracking_table cfg svc (failed_record key ts pid e) ?w1")
  have w2: "w2 = ?w1\<lparr>audit_rows := audit_rows ?w1 @
      audit_written cfg svc (failed_record key ts pid e)\<rparr>"
    using UT snd_update_tracking_table [of cfg svc "failed_record key ts pid e" ?w1] by simp
  have hf: "snd (handle_failure cfg svc bucket key pid ts e w) = w2"
    using UT by (simp add: handle_failure_def Let_def split: option.splits)
  show ?thesis
    unfolding hf w2 by (simp add: save_failed_document_eq split: option.splits)
qed

text \<open>The stub services evaluated.\<close>

lemma extract_document_stub:
  "s3_get_object svc = (\<lambda>b k. Inr document) \<Longrightarrow> decode_utf8 svc = Inr \<Longrightarrow>
   extract_document svc ''b'' ''uploads/doc1.txt'' = Inr document"
  by (simp add: extract_document_def endswith_def)

lemma response_text_envelope: "response_text (envelope a) = Inr a"
  by (simp add: response_text_def envelope_def)



lemma strip_critical: "py_strip (strip_fences answer_critical) = answer_critical"
  by (simp add: strip_fences_def answer_critical_def fence_def py_strip_def isspace_def
      startswith_def endswith_def Let_def quoted_def)


lemma envelope_body_neq_critical: "answer_critical \<noteq> envelope_body a"
  by (simp add: envelope_body_def answer_critical_def quoted_def)


lemma py_strip_doc1: "py_strip doc1_text \<noteq> []"
  by (simp add: py_strip_def doc1_text_def isspace_def)

lemma select_model_doc1: "select_model cfg_full doc1_text = ''haiku''"
  by (simp add: select_model_def cfg_full_def estimate_tokens_def TOKEN_THRESHOLD_def doc1_text_def)

lemma handler_success:
  assumes V: "names_document ev bucket key"
    and E: "extract_document svc bucket key = Inr document_text"
    and N: "py_strip document_text \<noteq> []"
    and B: "fst (invoke_bedrock cfg svc document_text (select_model cfg document_text)
              (uuid4 svc) w) = Inr (JObj d)"
    and P: "\<And>k v. s3_put_object svc (SUMMARY_BUCKET cfg) k v = None"
    and A: "audit_absorbed svc"
  shows "handler cfg svc ev w =
             (Inr (succeeded_result (uuid4 svc) key (summary_output_key key)
                     (stamp_summary svc key d) (select_model cfg document_text)),
              w\<lparr>model_calls := model_calls w @
                   [(select_model cfg document_text,
                     user_prompt cfg (truncate_text document_text) (uuid4 svc)
                       (select_model cfg document_text))],
                objects := (objects w)
                   ((SUMMARY_BUCKET cfg, summary_output_key key) \<mapsto>
                      JObj (stamp_summary svc key d)),
                audit_rows := audit_rows w @
                   audit_written cfg svc
                     (completed_record cfg key (utcnow svc) (uuid4 svc) (stamp_summary svc key d)
                        (select_model cfg document_text) (summary_output_key key))\<rparr>)"
  by (simp add: handler_names_document [OF V] process_document_success [OF E N B P A])


lemma parse_response_parsed:
  assumes "json_loads svc body = Some response_body"
    and "response_text response_body = Inr raw"
    and "json_loads svc (py_strip (strip_fences raw)) = Some j"
  shows "parse_response svc body pid m = Inr j"
  using assms by (simp add: parse_response_def Let_def)



lemma fst_handler_absorbed:
  assumes "names_document ev bucket key" and "audit_absorbed svc"
  shows "fst (handler cfg svc ev w) =
           fst (process_document cfg svc bucket key (uuid4 svc) (utcnow svc) w)"
proof -
  obtain x w1 where pd: "process_document cfg svc bucket key (uuid4 svc) (utcnow svc) w = (x, w1)"
    by (cases "process_document cfg svc bucket key (uuid4 svc) (utcnow svc) w")
  show ?thesis
    by (cases x) (simp_all add: handler_names_document [OF assms(1)] pd
        handle_failure_absorbed [OF assms(2)])
qed

lemma stub_ids: "uuid4 (svc_stub d a p) = ''id-1''" "utcnow (svc_stub d a p) = ''t0''"
  by (simp_all add: svc_stub_def)


lemma strip_critical_parsed:
  "json_loads (svc_stub doc answer_critical (Some j)) (py_strip (strip_fences answer_critical))
     = Some j"
  by (simp add: svc_stub_def strip_critical envelope_body_neq_critical)

text \<open>The outcome of the handler when the audit write is absorbed.\<close>

lemma fst_save_summary_world:
  "fst (save_summary cfg svc summary key w) = fst (save_summary cfg svc summary key w')"
  by (cases summary) (simp_all add: save_summary_def Let_def split: option.splits)

lemma fst_process_document_absorbed:
  assumes A: "audit_absorbed svc"
  shows "fst (process_document cfg svc bucket key pid ts w) =
     (case extract_document svc bucket key of
        Inl e \<Rightarrow> Inl e
      | Inr document_text \<Rightarrow>
          if py_strip document_text = []
          then Inl (ValueError ''Document is empty or could not be extracted'')
          else (case fst (invoke_bedrock cfg svc document_text
                            (select_model cfg document_text) pid w) of
                  Inl e \<Rightarrow> Inl e
                | Inr summary \<Rightarrow>
                    (case fst (save_summary cfg svc summary key w) of
                       Inl e \<Rightarrow> Inl e
                     | Inr (output_key, summary') \<Rightarrow>
                         Inr (succeeded_result pid key output_key summary'
                                (select_model cfg document_text)))))"
proof (cases "extract_document svc bucket key")
  case (Inl e)
  then show ?thesis by (simp add: process_document_def)
next
  case E: (Inr document_text)
  show ?thesis
  proof (cases "py_strip document_text = []")
    case True
    then show ?thesis using E by (simp add: process_document_def)
  next
    case N: False
    let ?m = "select_model cfg document_text"
    obtain x where x: "fst (invoke_bedrock cfg svc document_text ?m pid w) = x"
      by simp
    note IB = invoke_bedrock_eq [OF x]
    show ?thesis
    proof (cases x)
      case (Inl e)
      then show ?thesis using E N x IB by (simp add: process_document_def Let_def)
    next
      case S: (Inr summary)
      let ?w1 = "w\<lparr>model_calls := model_calls w
        @ [(?m, user_prompt cfg (truncate_text document_text) pid ?m)]\<rparr>"
      obtain y w2 where SS: "save_summary cfg svc summary key ?w1 = (y, w2)"
        by (cases "save_summary cfg svc summary key ?w1")
      have y: "fst (save_summary cfg svc summary key w) = y"
        using SS fst_save_summary_world [of cfg svc summary key w ?w1] by simp
      show ?thesis
      proof (cases y)
        case (Inl e)
        then show ?thesis
          using E N x IB S SS y by (simp add: process_document_def Let_def)
      next
        case (Inr p)
        obtain ok d' where p: "p = (ok, d')" by (cases p)
        show ?thesis
          using E N x IB S SS y Inr p
          by (simp add: process_document_def Let_def update_tracking_table_absorbed_eq [OF A])
      qed
    qed
  qed
qed

lemma extract_document_put_item_update:
  "extract_document (svc\<lparr>dynamodb_put_item := p\<rparr>) bucket key = extract_document svc bucket key"
  by (simp add: extract_document_def split: sum.splits)

lemma select_model_table_update:
  "select_model (cfg\<lparr>TRACKING_TABLE := t\<rparr>) txt = select_model cfg txt"
  by (simp add: select_model_def)

lemma fst_invoke_bedrock_audit_update:
  "fst (invoke_bedrock (cfg\<lparr>TRACKING_TABLE := t\<rparr>) (svc\<lparr>dynamodb_put_item := p\<rparr>) txt m pid w) =
     fst (invoke_bedrock cfg svc txt m pid w)"
  by (simp add: fst_invoke_bedrock parse_response_def Let_def user_prompt_def prompt_before_def
      prompt_after_def split: sum.splits option.splits)

lemma fst_save_summary_audit_update:
  "fst (save_summary (cfg\<lparr>TRACKING_TABLE := t\<rparr>) (svc\<lparr>dynamodb_put_item := p\<rparr>) summary key w) =
     fst (save_summary cfg svc summary key w)"
  by (cases summary) (simp_all add: save_summary_def Let_def split: option.splits)

lemma handler_not_named:
  assumes "\<not> names_document ev (the (py_or (ev_Bucket ev) (ev_bucket ev)))
              (the (py_or (ev_Key ev) (ev_key ev)))"
    and "uuid4 svc' = uuid4 svc"
  shows "snd (handler cfg svc ev w) = w
       \<and> fst (handler cfg svc ev w) = fst (handler cfg' svc' ev w')
       \<and> (\<exists>r. fst (handler cfg svc ev w) = Inr r)"
proof -
  let ?b = "py_or (ev_Bucket ev) (ev_bucket ev)" and ?k = "py_or (ev_Key ev) (ev_key ev)"
  have "\<not> truthy ?b \<or> \<not> truthy ?k \<or> \<not> (endswith (the ?k) ''.txt'' \<or> endswith (the ?k) ''.pdf'')"
    using assms by (cases ?b; cases ?k) (auto simp: names_document_def)
  then show ?thesis
    using assms(2) by (auto simp: handler_def Let_def)
qed

lemma handle_failure_raises: "\<exists>e'. fst (handle_failure cfg svc bucket key pid ts e w) = Inl e'"
proof -
  obtain z w2 where "update_tracking_table cfg svc (failed_record key ts pid e)
      (snd (save_failed_document cfg svc (error_info_record pid e bucket key) key w)) = (z, w2)"
    by (cases "update_tracking_table cfg svc (failed_record key ts pid e)
      (snd (save_failed_document cfg svc (error_info_record pid e bucket key) key w))")
  then show ?thesis
    by (cases z) (simp_all add: handle_failure_def Let_def)
qed

lemma handler_Inl:
  assumes "names_document ev bucket key"
    and "process_document cfg svc bucket key (uuid4 svc) (utcnow svc) w = (Inl e, w1)"
  shows "handler cfg svc ev w = handle_failure cfg svc bucket key (uuid4 svc) (utcnow svc) e w1"
  by (simp add: handler_names_document [OF assms(1)] assms(2))

lemma handler_Inr:
  assumes "names_document ev bucket key"
    and "process_document cfg svc bucket key (uuid4 svc) (utcnow svc) w = (Inr r, w1)"
  shows "handler cfg svc ev w = (Inr r, w1)"
  by (simp add: handler_names_document [OF assms(1)] assms(2))

lemma process_document_missing:
  "s3_get_object svc = get_object_missing \<Longrightarrow>
   process_document cfg svc bucket key pid ts w = (Inl (ClientError ''NoSuchKey''), w)"
  by (simp add: process_document_def extract_document_def get_object_missing_def)

lemma failed_key_doc1: "failed_output_key ''uploads/doc1.txt'' = ''failed/doc1_error.json''"
  by (simp add: failed_output_key_def base_name_def split_slash_last_def rsplit_dot_first_def)






lemma invoke_bedrock_stub_critical:
  "fst (invoke_bedrock cfg (svc_stub doc answer_critical (Some (JObj parsed_critical))) txt m pid w)
     = Inr (JObj parsed_critical)"
proof -
  have "parse_response (svc_stub doc answer_critical (Some (JObj parsed_critical)))
      (envelope_body answer_critical) pid m = Inr (JObj parsed_critical)"
    by (rule parse_response_parsed [where response_body = "envelope answer_critical"
          and raw = answer_critical])
      (simp_all add: response_text_envelope strip_critical_parsed, simp add: svc_stub_def)
  then show ?thesis
    by (simp add: fst_invoke_bedrock) (simp add: svc_stub_def)
qed

lemma summary_key_doc1: "summary_output_key ''uploads/doc1.txt'' = ''summaries/doc1_summary.json''"
  by (simp add: summary_output_key_def base_name_def split_slash_last_def rsplit_dot_first_def)

lemma handler_stub_critical:
  assumes "s = svc_stub doc1_text answer_critical (Some (JObj parsed_critical))"
  shows "handler cfg s ev_doc1 w =
     (Inr (succeeded_result ''id-1'' ''uploads/doc1.txt'' ''summaries/doc1_summary.json''
             (stamp_summary s ''uploads/doc1.txt'' parsed_critical) (select_model cfg doc1_text)),
      w\<lparr>model_calls := model_calls w @
           [(select_model cfg doc1_text,
             user_prompt cfg (truncate_text doc1_text) ''id-1'' (select_model cfg doc1_text))],
        objects := (objects w)
           ((SUMMARY_BUCKET cfg, ''summaries/doc1_summary.json'') \<mapsto>
              JObj (stamp_summary s ''uploads/doc1.txt'' parsed_critical)),
        audit_rows := audit_rows w @
           audit_written cfg s
             (completed_record cfg ''uploads/doc1.txt'' ''t0'' ''id-1''
                (stamp_summary s ''uploads/doc1.txt'' parsed_critical)
                (select_model cfg doc1_text) ''summaries/doc1_summary.json'')\<rparr>)"
proof -
  have E: "extract_document s ''b'' ''uploads/doc1.txt'' = Inr doc1_text"
    unfolding assms by (rule extract_document_stub) (simp_all add: svc_stub_def)
  have B: "fst (invoke_bedrock cfg s doc1_text (select_model cfg doc1_text) (uuid4 s) w)
      = Inr (JObj parsed_critical)"
    unfolding assms by (rule invoke_bedrock_stub_critical)
  have P: "\<And>k v. s3_put_object s (SUMMARY_BUCKET cfg) k v = None"
    unfolding assms by (simp add: svc_stub_def)
  have A: "audit_absorbed s"
    unfolding assms by (rule audit_absorbed_stub)
  show ?thesis
    using handler_success [OF names_document_doc1 E py_strip_doc1 B P A]
    by (simp add: summary_key_doc1) (simp add: assms stub_ids)
qed

text \<open>The base name of a key.\<close>

lemma split_slash_last_path:
  "CHR ''/'' \<notin> set name \<Longrightarrow> dir = [] \<or> last dir = CHR ''/'' \<Longrightarrow>
     split_slash_last (dir @ name) = name"
proof -
  assume n: "CHR ''/'' \<notin> set name" and d: "dir = [] \<or> last dir = CHR ''/''"
  have "takeWhile (\<lambda>c. c \<noteq> CHR ''/'') (rev name @ rev dir) = rev name"
  proof (cases dir rule: rev_cases)
    case Nil
    then show ?thesis using n by auto
  next
    case (snoc ys y)
    then have "y = CHR ''/''" using d by simp
    then show ?thesis using n snoc by (auto simp: takeWhile_tail)
  qed
  then show ?thesis by (simp add: split_slash_last_def)
qed

lemma rsplit_dot_first_ext:
  "CHR ''.'' \<notin> set ext \<Longrightarrow> rsplit_dot_first (name @ ''.'' @ ext) = name"
proof -
  assume e: "CHR ''.'' \<notin> set ext"
  have "dropWhile (\<lambda>c. c \<noteq> CHR ''.'') (rev ext @ CHR ''.'' # rev name) = CHR ''.'' # rev name"
    using e by (subst dropWhile_append2) auto
  then show ?thesis by (simp add: rsplit_dot_first_def)
qed

lemma base_name_path:
  assumes "CHR ''/'' \<notin> set name" "CHR ''/'' \<notin> set ext" "CHR ''.'' \<notin> set ext"
    and "dir = [] \<or> last dir = CHR ''/''"
  shows "base_name (dir @ name @ ''.'' @ ext) = name"
proof -
  have "split_slash_last (dir @ (name @ ''.'' @ ext)) = name @ ''.'' @ ext"
    using assms by (intro split_slash_last_path) auto
  then show ?thesis
    using rsplit_dot_first_ext [OF assms(3), of name] by (simp add: base_name_def)
qed

lemma handler_Inr_process_document:
  assumes V: "names_document ev bucket key"
    and R: "handler cfg svc ev w = (Inr r, w')"
  shows "process_document cfg svc bucket key (uuid4 svc) (utcnow svc) w = (Inr r, w')"
proof -
  obtain x w1 where pd: "process_document cfg svc bucket key (uuid4 svc) (utcnow svc) w = (x, w1)"
    by (cases "process_document cfg svc bucket key (uuid4 svc) (utcnow svc) w")
  show ?thesis
  proof (cases x)
    case (Inl e)
    then have "handler cfg svc ev w = handle_failure cfg svc bucket key (uuid4 svc) (utcnow svc) e w1"
      using handler_Inl [OF V] pd by simp
    then have "\<exists>e'. fst (handler cfg svc ev w) = Inl e'"
      using handle_failure_raises [of cfg svc bucket key "uuid4 svc" "utcnow svc" e w1] by simp
    then show ?thesis
      using R by simp
  next
    case (Inr r0)
    then show ?thesis using handler_Inr [OF V] pd R by simp
  qed
qed

lemma handler_Inr_summary:
  assumes V: "names_document ev bucket key"
    and R: "handler cfg svc ev w = (Inr r, w')"
  shows "\<exists>f d. r = JObj f
          \<and> map_of f ''output_key'' = Some (JStr (summary_output_key key))
          \<and> objects w' (SUMMARY_BUCKET cfg, summary_output_key key) = Some (JObj d)
          \<and> map_of d ''generated_at'' = Some (JStr (utcnow svc))"
proof -
  from process_document_Inr [OF handler_Inr_process_document [OF V R]]
  obtain d m d0 where r: "r = succeeded_result (uuid4 svc) key (summary_output_key key) d m"
    and o: "objects w' (SUMMARY_BUCKET cfg, summary_output_key key) = Some (JObj d)"
    and d: "d = stamp_summary svc key d0"
    by blast
  have "map_of d ''generated_at'' = Some (JStr (utcnow svc))"
    by (simp add: d stamp_summary_def map_of_dict_set)
  then show ?thesis
    using r o by (simp add: succeeded_result_def)
qed

lemma fst_invoke_bedrock_utcnow_update:
  "fst (invoke_bedrock cfg (svc\<lparr>utcnow := t\<rparr>) txt m pid w) =
     fst (invoke_bedrock cfg svc txt m pid w)"
  by (simp add: fst_invoke_bedrock parse_response_def Let_def
      split: sum.splits option.splits)

lemma handler_returns_stub_later:
  assumes "s = (svc_stub doc1_text answer_critical (Some (JObj parsed_critical)))\<lparr>utcnow := t\<rparr>"
  shows "\<exists>r. handler cfg s ev_doc1 w = (Inr r, snd (handler cfg s ev_doc1 w))"
proof -
  have E: "extract_document s ''b'' ''uploads/doc1.txt'' = Inr doc1_text"
    unfolding assms by (rule extract_document_stub) (simp_all add: svc_stub_def)
  have B: "fst (invoke_bedrock cfg s doc1_text (select_model cfg doc1_text) (uuid4 s) w)
      = Inr (JObj parsed_critical)"
    unfolding assms by (simp add: fst_invoke_bedrock_utcnow_update invoke_bedrock_stub_critical)
  have P: "\<And>k v. s3_put_object s (SUMMARY_BUCKET cfg) k v = None"
    unfolding assms by (simp add: svc_stub_def)
  have A: "audit_absorbed s"
    unfolding assms using audit_absorbed_stub by (simp add: audit_absorbed_def)
  show ?thesis
    using handler_success [OF names_document_doc1 E py_strip_doc1 B P A] by simp
qed

section \<open>Empty documents\<close>



section \<open>Malformed model output\<close>





section \<open>What the summary holds\<close>

text \<open>
  C6, as the code has it. The Worker applies no schema check: whatever JSON object the
  model's text parses to is the summary. When processing succeeds with the parsed
  object \<open>d\<close>, the \<open>risk_level\<close> the handler reports is the value \<open>d\<close> holds under
  \<open>risk_level\<close> (UNKNOWN when \<open>d\<close> has none), and the summary put under the summary key
  is \<open>d\<close> with \<open>original_document\<close> and \<open>generated_at\<close> assigned and nothing else
  changed; in particular its \<open>risk_level\<close> and \<open>lab_values\<close> are those of \<open>d\<close>.
\<close>

theorem summary_not_schema_checked:
  assumes V: "names_document ev bucket key"
    and E: "extract_document svc bucket key = Inr document_text"
    and N: "py_strip document_text \<noteq> []"
    and M: "bedrock_invoke_model svc (select_model cfg document_text)
              (user_prompt cfg (truncate_text document_text) (uuid4 svc)
                 (select_model cfg document_text)) = Inr body"
    and J1: "json_loads svc body = Some response_body"
    and T: "response_text response_body = Inr raw"
    and J2: "json_loads svc (py_strip (strip_fences raw)) = Some (JObj d)"
    and P: "\<And>k v. s3_put_object svc (SUMMARY_BUCKET cfg) k v = None"
    and A: "audit_absorbed svc"
  shows "\<exists>r s.
           fst (handler cfg svc ev w) = Inr (JObj r)
         \<and> map_of r ''status'' = Some (JStr ''SUCCEEDED'')
         \<and> map_of r ''risk_level'' = Some (dict_get d ''risk_level'' (JStr ''UNKNOWN''))
         \<and> objects (snd (handler cfg svc ev w)) (SUMMARY_BUCKET cfg, summary_output_key key) =
             Some (JObj s)
         \<and> s = dict_set ''generated_at'' (JStr (utcnow svc))
                 (dict_set ''original_document'' (JStr key) d)
         \<and> map_of s ''risk_level'' = map_of d ''risk_level''
         \<and> map_of s ''lab_values'' = map_of d ''lab_values''"
proof -
  let ?m = "select_model cfg document_text"
  have B: "fst (invoke_bedrock cfg svc document_text ?m (uuid4 svc) w) = Inr (JObj d)"
    by (simp add: fst_invoke_bedrock M parse_response_parsed [OF J1 T J2])
  note H = handler_success [OF V E N B P A]
  have "fst (handler cfg svc ev w) =
      Inr (succeeded_result (uuid4 svc) key (summary_output_key key) (stamp_summary svc key d) ?m)"
    by (simp add: H)
  moreover have "objects (snd (handler cfg svc ev w)) (SUMMARY_BUCKET cfg, summary_output_key key) =
             Some (JObj (stamp_summary svc key d))"
    by (simp add: H)
  ultimately show ?thesis
    by (simp add: succeeded_result_def dict_get_stamp_summary map_of_stamp_summary)
      (simp add: stamp_summary_def)
qed

theorem summary_not_schema_checked_witness:
  "fst (handler cfg_full (svc_stub doc1_text answer_critical (Some (JObj parsed_critical)))
          ev_doc1 world0) =
     Inr (JObj [(''status'', JStr ''SUCCEEDED''), (''processing_id'', JStr ''id-1''),
                (''input_key'', JStr ''uploads/doc1.txt''),
                (''output_key'', JStr ''summaries/doc1_summary.json''),
                (''risk_level'', JStr ''CRITICAL''), (''model_used'', JStr ''haiku'')])"
proof -
  let ?svc = "svc_stub doc1_text answer_critical (Some (JObj parsed_critical))"
  have E: "extract_document ?svc ''b'' ''uploads/doc1.txt'' = Inr doc1_text"
    by (rule extract_document_stub) (simp_all add: svc_stub_def)
  have M: "bedrock_invoke_model ?svc (select_model cfg_full doc1_text)
      (user_prompt cfg_full (truncate_text doc1_text) (uuid4 ?svc) (select_model cfg_full doc1_text))
      = Inr (envelope_body answer_critical)"
    by (simp add: svc_stub_def)
  have J1: "json_loads ?svc (envelope_body answer_critical) = Some (envelope answer_critical)"
    by (simp add: svc_stub_def)
  have P: "\<And>k v. s3_put_object ?svc (SUMMARY_BUCKET cfg_full) k v = None"
    by (simp add: svc_stub_def)
  have K: "summary_output_key ''uploads/doc1.txt'' = ''summaries/doc1_summary.json''"
    by (simp add: summary_output_key_def base_name_def split_slash_last_def rsplit_dot_first_def)
  have B: "fst (invoke_bedrock cfg_full ?svc doc1_text (select_model cfg_full doc1_text)
      (uuid4 ?svc) world0) = Inr (JObj parsed_critical)"
    by (simp add: fst_invoke_bedrock M
        parse_response_parsed [OF J1 response_text_envelope strip_critical_parsed])
  from summary_not_schema_checked [OF names_document_doc1 E py_strip_doc1 M J1
      response_text_envelope strip_critical_parsed P audit_absorbed_stub, of world0]
  obtain r where "fst (handler cfg_full ?svc ev_doc1 world0) = Inr (JObj r)"
    by blast
  then show ?thesis
    using handler_success [OF names_document_doc1 E py_strip_doc1 B P audit_absorbed_stub]
    by (simp add: select_model_doc1 stub_ids K succeeded_result_def dict_get_stamp_summary)
      (simp add: dict_get_def parsed_critical_def)
qed

text \<open>
  C6 as stated fails: the model answers with a JSON object whose \<open>risk_level\<close> is
  CRITICAL and whose lab value is \<open>null\<close>; the handler reports CRITICAL, which is none
  of HIGH, MEDIUM, LOW, UNKNOWN, and the summary it puts holds the \<open>null\<close>.
\<close>

theorem summary_schema_counterexample:
  "fst (handler cfg_full (svc_stub doc1_text answer_critical (Some (JObj parsed_critical)))
          ev_doc1 world0) =
     Inr (JObj [(''status'', JStr ''SUCCEEDED''), (''processing_id'', JStr ''id-1''),
                (''input_key'', JStr ''uploads/doc1.txt''),
                (''output_key'', JStr ''summaries/doc1_summary.json''),
                (''risk_level'', JStr ''CRITICAL''), (''model_used'', JStr ''haiku'')])
   \<and> JStr ''CRITICAL'' \<notin> {JStr ''HIGH'', JStr ''MEDIUM'', JStr ''LOW'', JStr ''UNKNOWN''}
   \<and> objects (snd (handler cfg_full
         (svc_stub doc1_text answer_critical (Some (JObj parsed_critical))) ev_doc1 world0))
       (Some ''summary-bucket'', ''summaries/doc1_summary.json'') =
       Some (JObj [(''risk_level'', JStr ''CRITICAL''),
                   (''lab_values'', JObj [(''HbA1c'', JNull)]),
                   (''original_document'', JStr ''uploads/doc1.txt''),
                   (''generated_at'', JStr ''t0'')])"
proof -
  let ?svc = "svc_stub doc1_text answer_critical (Some (JObj parsed_critical))"
  have E: "extract_document ?svc ''b'' ''uploads/doc1.txt'' = Inr doc1_text"
    by (rule extract_document_stub) (simp_all add: svc_stub_def)
  have M: "bedrock_invoke_model ?svc (select_model cfg_full doc1_text)
      (user_prompt cfg_full (truncate_text doc1_text) (uuid4 ?svc) (select_model cfg_full doc1_text))
      = Inr (envelope_body answer_critical)"
    by (simp add: svc_stub_def)
  have J1: "json_loads ?svc (envelope_body answer_critical) = Some (envelope answer_critical)"
    by (simp add: svc_stub_def)
  have P: "\<And>k v. s3_put_object ?svc (SUMMARY_BUCKET cfg_full) k v = None"
    by (simp add: svc_stub_def)
  have K: "summary_output_key ''uploads/doc1.txt'' = ''summaries/doc1_summary.json''"
    by (simp add: summary_output_key_def base_name_def split_slash_last_def rsplit_dot_first_def)
  have B: "fst (invoke_bedrock cfg_full ?svc doc1_text (select_model cfg_full doc1_text)
      (uuid4 ?svc) world0) = Inr (JObj parsed_critical)"
    by (simp add: fst_invoke_bedrock M
        parse_response_parsed [OF J1 response_text_envelope strip_critical_parsed])
  have S: "stamp_summary ?svc ''uploads/doc1.txt'' parsed_critical =
      [(''risk_level'', JStr ''CRITICAL''), (''lab_values'', JObj [(''HbA1c'', JNull)]),
       (''original_document'', JStr ''uploads/doc1.txt''), (''generated_at'', JStr ''t0'')]"
    by (simp add: stamp_summary_def parsed_critical_def stub_ids)
  have SB: "SUMMARY_BUCKET cfg_full = Some ''summary-bucket''"
    by (simp add: cfg_full_def)
  show ?thesis
    using handler_success [OF names_document_doc1 E py_strip_doc1 B P audit_absorbed_stub]
    by (simp add: select_model_doc1 stub_ids K succeeded_result_def S SB)
      (simp add: dict_get_def)
qed

section \<open>Failures of the audit write\<close>

text \<open>
  C10. Without a configured tracking table, and when \<open>put_item\<close> raises a client
  error, \<open>update_tracking_table\<close> returns normally and leaves the world as it was. So
  the outcome of the handler (the result it returns or the exception it raises) does
  not depend on whether the audit row was written: two runs that differ only in the
  tracking table configured and in what \<open>put_item\<close> does, each of them failing at
  most with a client error, have the same outcome.
\<close>

theorem audit_failure_isolated:
  "(\<not> truthy (TRACKING_TABLE cfg) \<longrightarrow> update_tracking_table cfg svc row w = (None, w))
   \<and> (dynamodb_put_item svc (the (TRACKING_TABLE cfg)) row = Some (ClientError m) \<longrightarrow>
        update_tracking_table cfg svc row w = (None, w))
   \<and> (audit_absorbed svc \<and> audit_absorbed (svc\<lparr>dynamodb_put_item := p\<rparr>) \<longrightarrow>
        fst (handler (cfg\<lparr>TRACKING_TABLE := t\<rparr>) (svc\<lparr>dynamodb_put_item := p\<rparr>) ev w) =
        fst (handler cfg svc ev w))"
proof (intro conjI impI)
  assume "\<not> truthy (TRACKING_TABLE cfg)"
  then show "update_tracking_table cfg svc row w = (None, w)"
    by (simp add: update_tracking_table_def)
next
  assume "dynamodb_put_item svc (the (TRACKING_TABLE cfg)) row = Some (ClientError m)"
  then show "update_tracking_table cfg svc row w = (None, w)"
    by (simp add: update_tracking_table_def)
next
  assume A: "audit_absorbed svc \<and> audit_absorbed (svc\<lparr>dynamodb_put_item := p\<rparr>)"
  let ?cfg = "cfg\<lparr>TRACKING_TABLE := t\<rparr>" and ?svc = "svc\<lparr>dynamodb_put_item := p\<rparr>"
  let ?b = "the (py_or (ev_Bucket ev) (ev_bucket ev))" and ?k = "the (py_or (ev_Key ev) (ev_key ev))"
  show "fst (handler ?cfg ?svc ev w) = fst (handler cfg svc ev w)"
  proof (cases "names_document ev ?b ?k")
    case True
    have "fst (process_document ?cfg ?svc ?b ?k (uuid4 svc) (utcnow svc) w) =
        fst (process_document cfg svc ?b ?k (uuid4 svc) (utcnow svc) w)"
      using A
      by (simp add: fst_process_document_absorbed extract_document_put_item_update
          select_model_table_update fst_invoke_bedrock_audit_update fst_save_summary_audit_update
          cong: sum.case_cong if_cong)
    then show ?thesis
      using A fst_handler_absorbed [OF True, of ?svc ?cfg w]
        fst_handler_absorbed [OF True, of svc cfg w]
      by simp
  next
    case False
    then show ?thesis
      using handler_not_named [OF False, of svc ?svc ?cfg w cfg w] by simp
  qed
qed

theorem audit_failure_isolated_witness:
  "update_tracking_table cfg_untracked (svc_stub doc1_text answer_fenced None) [] world0 =
     (None, world0)
   \<and> update_tracking_table cfg_full
        ((svc_stub doc1_text answer_fenced None)\<lparr>dynamodb_put_item := put_item_throttled\<rparr>)
        [] world0 = (None, world0)
   \<and> fst (handler cfg_untracked
        ((svc_stub doc1_text answer_fenced None)\<lparr>dynamodb_put_item := put_item_throttled\<rparr>)
        ev_doc1 world0) =
     fst (handler cfg_full (svc_stub doc1_text answer_fenced None) ev_doc1 world0)"
proof -
  let ?svc = "svc_stub doc1_text answer_fenced None"
  have 1: "\<not> truthy (TRACKING_TABLE cfg_untracked)"
    by (simp add: cfg_untracked_def)
  have 2: "dynamodb_put_item (?svc\<lparr>dynamodb_put_item := put_item_throttled\<rparr>)
      (the (TRACKING_TABLE cfg_full)) [] = Some (ClientError ''ProvisionedThroughputExceededException'')"
    by (simp add: put_item_throttled_def)
  have 3: "audit_absorbed ?svc \<and> audit_absorbed (?svc\<lparr>dynamodb_put_item := put_item_throttled\<rparr>)"
    by (simp add: audit_absorbed_stub) (simp add: audit_absorbed_def put_item_throttled_def)
  have 4: "cfg_full\<lparr>TRACKING_TABLE := None\<rparr> = cfg_untracked"
    by (simp add: cfg_untracked_def)
  show ?thesis
    using audit_failure_isolated [of cfg_untracked ?svc "[]" world0]
      audit_failure_isolated [of cfg_full "?svc\<lparr>dynamodb_put_item := put_item_throttled\<rparr>" "[]" world0
        "''ProvisionedThroughputExceededException''"]
      audit_failure_isolated [of cfg_full ?svc "[]" world0 _ put_item_throttled None ev_doc1]
      1 2 3 4
    by simp
qed

section \<open>The failure path\<close>

text \<open>
  C3, as the code has it. For an event that names a document: when the \<open>try\<close> body
  completes, the handler returns its result; when it raises \<open>e\<close>, the handler raises
  too, and raises \<open>e\<close> itself when the audit write fails at most with a client error.
  In between it attempts the failure record at \<open>failed/{basename}_error.json\<close>, which
  is there when that put succeeds, and the FAILED audit row, which is there when a
  tracking table is configured and \<open>put_item\<close> accepts it. A text that does not parse
  is not among the exceptions of the \<open>try\<close> body (C2).
\<close>

theorem failure_recorded_and_reraised:
  assumes V: "names_document ev bucket key"
  shows "(\<forall>r w1. process_document cfg svc bucket key (uuid4 svc) (utcnow svc) w = (Inr r, w1) \<longrightarrow>
            handler cfg svc ev w = (Inr r, w1))
       \<and> (\<forall>e w1. process_document cfg svc bucket key (uuid4 svc) (utcnow svc) w = (Inl e, w1) \<longrightarrow>
            (\<exists>e'. fst (handler cfg svc ev w) = Inl e')
          \<and> (audit_absorbed svc \<longrightarrow> fst (handler cfg svc ev w) = Inl e)
          \<and> (s3_put_object svc (FAILED_BUCKET cfg) (failed_output_key key)
                (JObj (stamp_failure svc key (error_info_record (uuid4 svc) e bucket key))) = None \<longrightarrow>
              objects (snd (handler cfg svc ev w)) (FAILED_BUCKET cfg, failed_output_key key) =
                Some (JObj (stamp_failure svc key (error_info_record (uuid4 svc) e bucket key))))
          \<and> (truthy (TRACKING_TABLE cfg)
              \<and> dynamodb_put_item svc (the (TRACKING_TABLE cfg))
                  (failed_record key (utcnow svc) (uuid4 svc) e) = None \<longrightarrow>
              audit_rows (snd (handler cfg svc ev w)) =
                audit_rows w @
                  [(the (TRACKING_TABLE cfg), failed_record key (utcnow svc) (uuid4 svc) e)])
          \<and> map_of (failed_record key (utcnow svc) (uuid4 svc) e) ''status'' = Some (JStr ''FAILED'')
          \<and> map_of (stamp_failure svc key (error_info_record (uuid4 svc) e bucket key))
                ''error_message'' = Some (JStr (exn_str e)))
       \<and> failed_output_key key = ''failed/'' @ base_name key @ ''_error.json''
       \<and> ((\<exists>e. fst (handler cfg svc ev w) = Inl e) \<longleftrightarrow>
            (\<exists>e. fst (process_document cfg svc bucket key (uuid4 svc) (utcnow svc) w) = Inl e))"
proof (intro conjI allI impI)
  fix r w1
  assume "process_document cfg svc bucket key (uuid4 svc) (utcnow svc) w = (Inr r, w1)"
  then show "handler cfg svc ev w = (Inr r, w1)"
    by (rule handler_Inr [OF V])
next
  fix e w1
  assume F: "process_document cfg svc bucket key (uuid4 svc) (utcnow svc) w = (Inl e, w1)"
  note H = handler_Inl [OF V F]
  note S = snd_handle_failure [of cfg svc bucket key "uuid4 svc" "utcnow svc" e w1]
  show "\<exists>e'. fst (handler cfg svc ev w) = Inl e'"
    unfolding H by (rule handle_failure_raises)
  show "fst (handler cfg svc ev w) = Inl e" if "audit_absorbed svc"
    unfolding H by (rule handle_failure_absorbed [OF that])
  show "objects (snd (handler cfg svc ev w)) (FAILED_BUCKET cfg, failed_output_key key) =
      Some (JObj (stamp_failure svc key (error_info_record (uuid4 svc) e bucket key)))"
    if "s3_put_object svc (FAILED_BUCKET cfg) (failed_output_key key)
          (JObj (stamp_failure svc key (error_info_record (uuid4 svc) e bucket key))) = None"
    unfolding H using S that by simp
  show "audit_rows (snd (handler cfg svc ev w)) =
      audit_rows w @ [(the (TRACKING_TABLE cfg), failed_record key (utcnow svc) (uuid4 svc) e)]"
    if "truthy (TRACKING_TABLE cfg)
        \<and> dynamodb_put_item svc (the (TRACKING_TABLE cfg))
            (failed_record key (utcnow svc) (uuid4 svc) e) = None"
    unfolding H using S that process_document_Inl [OF F] by (simp add: audit_written_def)
  show "map_of (failed_record key (utcnow svc) (uuid4 svc) e) ''status'' = Some (JStr ''FAILED'')"
    by (simp add: failed_record_def)
  show "map_of (stamp_failure svc key (error_info_record (uuid4 svc) e bucket key))
      ''error_message'' = Some (JStr (exn_str e))"
    by (simp add: stamp_failure_def map_of_dict_set error_info_record_def)
next
  show "failed_output_key key = ''failed/'' @ base_name key @ ''_error.json''"
    by (simp add: failed_output_key_def)
next
  obtain x w1 where pd: "process_document cfg svc bucket key (uuid4 svc) (utcnow svc) w = (x, w1)"
    by (cases "process_document cfg svc bucket key (uuid4 svc) (utcnow svc) w")
  show "(\<exists>e. fst (handler cfg svc ev w) = Inl e) \<longleftrightarrow>
        (\<exists>e. fst (process_document cfg svc bucket key (uuid4 svc) (utcnow svc) w) = Inl e)"
  proof (cases x)
    case (Inl e)
    then show ?thesis
      using handler_Inl [OF V pd [unfolded Inl]] pd
        handle_failure_raises [of cfg svc bucket key "uuid4 svc" "utcnow svc" e w1]
      by simp
  next
    case (Inr r)
    then show ?thesis
      using handler_Inr [OF V pd [unfolded Inr]] pd by simp
  qed
qed

theorem failure_recorded_and_reraised_witness:
  "fst (handler cfg_full ((svc_stub doc1_text answer_fenced None)\<lparr>s3_get_object := get_object_missing\<rparr>)
          ev_doc1 world0) = Inl (ClientError ''NoSuchKey'')
   \<and> objects (snd (handler cfg_full
         ((svc_stub doc1_text answer_fenced None)\<lparr>s3_get_object := get_object_missing\<rparr>)
         ev_doc1 world0)) (Some ''failed-bucket'', ''failed/doc1_error.json'') =
       Some (JObj [(''processing_id'', JStr ''id-1''), (''error_type'', JStr ''ClientError''),
                   (''error_message'', JStr ''NoSuchKey''), (''bucket'', JStr ''b''),
                   (''key'', JStr ''uploads/doc1.txt''),
                   (''original_document'', JStr ''uploads/doc1.txt''),
                   (''failed_at'', JStr ''t0'')])
   \<and> audit_rows (snd (handler cfg_full
         ((svc_stub doc1_text answer_fenced None)\<lparr>s3_get_object := get_object_missing\<rparr>)
         ev_doc1 world0)) =
       [(''tracking'',
         [(''document_id'', JStr ''uploads/doc1.txt''), (''processing_timestamp'', JStr ''t0''),
          (''processing_id'', JStr ''id-1''), (''status'', JStr ''FAILED''),
          (''error_message'', JStr ''NoSuchKey''), (''risk_level'', JStr ''ERROR'')])]"
proof -
  let ?svc = "(svc_stub doc1_text answer_fenced None)\<lparr>s3_get_object := get_object_missing\<rparr>"
  have F: "process_document cfg_full ?svc ''b'' ''uploads/doc1.txt'' (uuid4 ?svc) (utcnow ?svc) world0
      = (Inl (ClientError ''NoSuchKey''), world0)"
    by (rule process_document_missing) simp
  have A: "audit_absorbed ?svc"
    by (simp add: audit_absorbed_def svc_stub_def)
  have P: "s3_put_object ?svc b k v = None" for b k v
    by (simp add: svc_stub_def)
  have D: "dynamodb_put_item ?svc t i = None" for t i
    by (simp add: svc_stub_def)
  have T: "TRACKING_TABLE cfg_full = Some ''tracking''" "FAILED_BUCKET cfg_full = Some ''failed-bucket''"
    by (simp_all add: cfg_full_def)
  have W: "audit_rows world0 = []" by (simp add: world0_def)
  show ?thesis
    using failure_recorded_and_reraised [OF names_document_doc1, of cfg_full ?svc world0] F A P D
    by (simp add: T W failed_key_doc1 stub_ids failed_record_def stamp_failure_def
        error_info_record_def)
qed

text \<open>
  C3 as stated fails: no tracking table is configured and the store refuses every put;
  the document is missing. The handler raises the \<open>ClientError\<close> of the read, and
  neither a failure record nor a FAILED audit row exists afterwards.
\<close>

theorem failure_record_counterexample:
  "fst (handler cfg_untracked
          ((svc_stub doc1_text answer_fenced None)
             \<lparr>s3_get_object := get_object_missing, s3_put_object := put_object_denied\<rparr>)
          ev_doc1 world0) = Inl (ClientError ''NoSuchKey'')
   \<and> objects (snd (handler cfg_untracked
         ((svc_stub doc1_text answer_fenced None)
            \<lparr>s3_get_object := get_object_missing, s3_put_object := put_object_denied\<rparr>)
         ev_doc1 world0)) (Some ''failed-bucket'', ''failed/doc1_error.json'') = None
   \<and> audit_rows (snd (handler cfg_untracked
         ((svc_stub doc1_text answer_fenced None)
            \<lparr>s3_get_object := get_object_missing, s3_put_object := put_object_denied\<rparr>)
         ev_doc1 world0)) = []"
proof -
  let ?svc = "(svc_stub doc1_text answer_fenced None)
            \<lparr>s3_get_object := get_object_missing, s3_put_object := put_object_denied\<rparr>"
  have F: "process_document cfg_untracked ?svc ''b'' ''uploads/doc1.txt'' (uuid4 ?svc) (utcnow ?svc)
      world0 = (Inl (ClientError ''NoSuchKey''), world0)"
    by (rule process_document_missing) simp
  have A: "audit_absorbed ?svc"
    by (simp add: audit_absorbed_def svc_stub_def)
  note H = handler_Inl [OF names_document_doc1 F]
  have "audit_written cfg_untracked ?svc row = []" for row
    by (simp add: audit_written_def cfg_untracked_def)
  then show ?thesis
    unfolding H
    using snd_handle_failure [of cfg_untracked ?svc "''b''" "''uploads/doc1.txt''" "uuid4 ?svc"
        "utcnow ?svc" "ClientError ''NoSuchKey''" world0]
    by (simp add: handle_failure_absorbed [OF A] put_object_denied_def world0_def)
qed

section \<open>Audit rows\<close>





section \<open>The summary key\<close>

text \<open>
  C9. The summary key is a function of the input key alone:
  \<open>summaries/{basename}_summary.json\<close>, where the base name of a key
  \<open>dir/name.ext\<close> is \<open>name\<close>. Two runs of the handler on the same event that both
  return report that same key, and after each run the object under that key is the
  summary this run stamped with its own \<open>generated_at\<close>: the last write wins.
\<close>

theorem summary_key_idempotent:
  assumes V: "names_document ev bucket key"
    and R1: "handler cfg svc1 ev w = (Inr r1, w1)"
    and R2: "handler cfg svc2 ev w1 = (Inr r2, w2)"
  shows "summary_output_key key = ''summaries/'' @ base_name key @ ''_summary.json''
       \<and> (\<forall>dir name ext.
             key = dir @ name @ ''.'' @ ext \<and> CHR ''/'' \<notin> set name \<and> CHR ''/'' \<notin> set ext
             \<and> CHR ''.'' \<notin> set ext \<and> (dir = [] \<or> last dir = CHR ''/'')
             \<longrightarrow> base_name key = name)
       \<and> (\<exists>f1 f2 d1 d2. r1 = JObj f1 \<and> r2 = JObj f2
             \<and> map_of f1 ''output_key'' = Some (JStr (summary_output_key key))
             \<and> map_of f2 ''output_key'' = Some (JStr (summary_output_key key))
             \<and> objects w1 (SUMMARY_BUCKET cfg, summary_output_key key) = Some (JObj d1)
             \<and> map_of d1 ''generated_at'' = Some (JStr (utcnow svc1))
             \<and> objects w2 (SUMMARY_BUCKET cfg, summary_output_key key) = Some (JObj d2)
             \<and> map_of d2 ''generated_at'' = Some (JStr (utcnow svc2)))"
proof (intro conjI allI impI)
  show "summary_output_key key = ''summaries/'' @ base_name key @ ''_summary.json''"
    by (simp add: summary_output_key_def)
next
  fix dir name ext
  assume "key = dir @ name @ ''.'' @ ext \<and> CHR ''/'' \<notin> set name \<and> CHR ''/'' \<notin> set ext
             \<and> CHR ''.'' \<notin> set ext \<and> (dir = [] \<or> last dir = CHR ''/'')"
  then show "base_name key = name"
    using base_name_path [of name ext dir] by simp
next
  from handler_Inr_summary [OF V R1] handler_Inr_summary [OF V R2]
  show "\<exists>f1 f2 d1 d2. r1 = JObj f1 \<and> r2 = JObj f2
             \<and> map_of f1 ''output_key'' = Some (JStr (summary_output_key key))
             \<and> map_of f2 ''output_key'' = Some (JStr (summary_output_key key))
             \<and> objects w1 (SUMMARY_BUCKET cfg, summary_output_key key) = Some (JObj d1)
             \<and> map_of d1 ''generated_at'' = Some (JStr (utcnow svc1))
             \<and> objects w2 (SUMMARY_BUCKET cfg, summary_output_key key) = Some (JObj d2)
             \<and> map_of d2 ''generated_at'' = Some (JStr (utcnow svc2))"
    by blast
qed


theorem summary_key_idempotent_witness:
  "summary_output_key ''uploads/doc1.txt'' = ''summaries/doc1_summary.json''
   \<and> base_name ''uploads/doc1.txt'' = ''doc1''
   \<and> (\<exists>d2. objects
         (snd (handler cfg_full
            ((svc_stub doc1_text answer_critical (Some (JObj parsed_critical)))\<lparr>utcnow := ''t1''\<rparr>)
            ev_doc1
            (snd (handler cfg_full
               (svc_stub doc1_text answer_critical (Some (JObj parsed_critical)))
               ev_doc1 world0))))
         (Some ''summary-bucket'', ''summaries/doc1_summary.json'') = Some (JObj d2)
       \<and> map_of d2 ''generated_at'' = Some (JStr ''t1''))"
proof -
  let ?svc1 = "svc_stub doc1_text answer_critical (Some (JObj parsed_critical))"
  let ?svc2 = "?svc1\<lparr>utcnow := ''t1''\<rparr>"
  let ?w1 = "snd (handler cfg_full ?svc1 ev_doc1 world0)"
  let ?w2 = "snd (handler cfg_full ?svc2 ev_doc1 ?w1)"
  obtain r1 where R1: "handler cfg_full ?svc1 ev_doc1 world0 = (Inr r1, ?w1)"
    using handler_stub_critical [OF refl, of cfg_full world0] by simp
  obtain r2 where R2: "handler cfg_full ?svc2 ev_doc1 ?w1 = (Inr r2, ?w2)"
    using handler_returns_stub_later [OF refl, of cfg_full "''t1''" ?w1] by blast
  have SB: "SUMMARY_BUCKET cfg_full = Some ''summary-bucket''"
    by (simp add: cfg_full_def)
  note T = summary_key_idempotent [OF names_document_doc1 R1 R2]
  have b: "base_name ''uploads/doc1.txt'' = ''doc1''"
    using conjunct1 [OF conjunct2 [OF T], rule_format, of "''uploads/''" "''doc1''" "''txt''"]
    by simp
  obtain d2 where "objects ?w2 (SUMMARY_BUCKET cfg_full, summary_output_key ''uploads/doc1.txt'')
            = Some (JObj d2)" and "map_of d2 ''generated_at'' = Some (JStr (utcnow ?svc2))"
    using conjunct2 [OF conjunct2 [OF T]] by blast
  then have "\<exists>d2. objects ?w2 (Some ''summary-bucket'', ''summaries/doc1_summary.json'')
            = Some (JObj d2) \<and> map_of d2 ''generated_at'' = Some (JStr ''t1'')"
    by (simp add: SB summary_key_doc1)
  then show ?thesis
    using b by (simp add: summary_key_doc1)
qed

end
